theory Spec2Isabelle
  imports Main "HOL-Library.AList" "HOL-Library.Char_ord" "HOL-Library.List_Lexorder"
begin

section \<open>Order-status proxy endpoint: a shallow embedding\<close>

text \<open>
  The repository holds two variants of the same request handler:
  \<^item> \<^verbatim>\<open>src/unnamed/part_000\<close>: JSON or HTML answer, failure reasons; its definitions carry
    the suffix \<open>_p0\<close>;
  \<^item> \<^verbatim>\<open>src/api/order-status.js\<close>: HTML answer with a timeline; its definitions carry the
    suffix \<open>_api\<close>.
  Definitions without a suffix are JavaScript or Node primitives, or code that is the same
  in both files.

  JavaScript strings are modelled as \<^typ>\<open>string\<close>, read as the UTF-8 bytes of the text.
  \<open>Buffer.from\<close> is then the identity and the byte length of a buffer is \<^const>\<open>length\<close>.
  \<open>Array.prototype.sort\<close> compares strings by UTF-16 code unit; \<open>code_units_key\<close> below
  gives that order on UTF-8 bytes. \<open>toUpperCase\<close> is applied by the handlers to the
  fulfillment status of the upstream only, an enumeration in ASCII letters, and is
  modelled on the ASCII letters. \<open>toLowerCase\<close> is applied to the email that the client
  sends, where it needs the case tables of Unicode: it is a parameter of the runtime.
\<close>

subsection \<open>JavaScript values and primitives\<close>

text \<open>An optional string: \<open>None\<close> stands for \<open>undefined\<close> and \<open>null\<close>.\<close>

fun truthy :: "string option \<Rightarrow> bool" where
  "truthy None = False"
| "truthy (Some s) = (s \<noteq> [])"

text \<open>\<open>a || b\<close> on optional strings.\<close>

definition js_or :: "string option \<Rightarrow> string option \<Rightarrow> string option" where
  "js_or a b = (if truthy a then a else b)"

text \<open>\<open>a || b\<close> where \<open>b\<close> is a string.\<close>

definition js_or_else :: "string option \<Rightarrow> string \<Rightarrow> string" where
  "js_or_else a b = (case a of None \<Rightarrow> b | Some s \<Rightarrow> if s = [] then b else s)"

text \<open>A thrown error: its name and its message.\<close>

datatype js_error = JsError (err_name: string) (err_message: string)

text \<open>\<open>String(err)\<close>.\<close>

definition String_of_error :: "js_error \<Rightarrow> string" where
  "String_of_error e =
     (if err_message e = [] then err_name e else err_name e @ '': '' @ err_message e)"

definition upper_char :: "char \<Rightarrow> char" where
  "upper_char c =
     (let n = of_char c :: nat in if 97 \<le> n \<and> n \<le> 122 then char_of (n - 32) else c)"

definition lower_char :: "char \<Rightarrow> char" where
  "lower_char c =
     (let n = of_char c :: nat in if 65 \<le> n \<and> n \<le> 90 then char_of (n + 32) else c)"

definition toUpperCase :: "string \<Rightarrow> string" where
  "toUpperCase s = map upper_char s"

text \<open>Lower-casing of the ASCII letters: \<open>toLowerCase\<close> on ASCII text.\<close>

definition toLowerCase :: "string \<Rightarrow> string" where
  "toLowerCase s = map lower_char s"

text \<open>
  The white space and line terminators that \<open>String.prototype.trim\<close> removes, as UTF-8:
  U+0009 to U+000D, U+0020, U+00A0, U+1680, U+2000 to U+200A, U+2028, U+2029, U+202F,
  U+205F, U+3000 and U+FEFF.
\<close>

definition whiteSpace :: "string list" where
  "whiteSpace =
     [[CHR 0x09], [CHR 0x0A], [CHR 0x0B], [CHR 0x0C], [CHR 0x0D], [CHR 0x20],
      [CHR 0xC2, CHR 0xA0],
      [CHR 0xE1, CHR 0x9A, CHR 0x80],
      [CHR 0xE2, CHR 0x80, CHR 0x80], [CHR 0xE2, CHR 0x80, CHR 0x81],
      [CHR 0xE2, CHR 0x80, CHR 0x82], [CHR 0xE2, CHR 0x80, CHR 0x83],
      [CHR 0xE2, CHR 0x80, CHR 0x84], [CHR 0xE2, CHR 0x80, CHR 0x85],
      [CHR 0xE2, CHR 0x80, CHR 0x86], [CHR 0xE2, CHR 0x80, CHR 0x87],
      [CHR 0xE2, CHR 0x80, CHR 0x88], [CHR 0xE2, CHR 0x80, CHR 0x89],
      [CHR 0xE2, CHR 0x80, CHR 0x8A],
      [CHR 0xE2, CHR 0x80, CHR 0xA8], [CHR 0xE2, CHR 0x80, CHR 0xA9],
      [CHR 0xE2, CHR 0x80, CHR 0xAF],
      [CHR 0xE2, CHR 0x81, CHR 0x9F],
      [CHR 0xE3, CHR 0x80, CHR 0x80],
      [CHR 0xEF, CHR 0xBB, CHR 0xBF]]"

text \<open>Removes, from the front, every leading member of \<open>ws\<close>.\<close>

function strip :: "string list \<Rightarrow> string \<Rightarrow> string" where
  "strip ws s =
     (case List.find (\<lambda>w. w \<noteq> [] \<and> take (length w) s = w) ws of
        None \<Rightarrow> s
      | Some w \<Rightarrow> strip ws (drop (length w) s))"
  by pat_completeness auto
termination
proof (relation "measure (\<lambda>(ws, s). length s)")
  show "wf (measure (\<lambda>(ws, s). length s))" by simp
next
  fix ws :: "string list" and s w :: string
  assume "List.find (\<lambda>w. w \<noteq> [] \<and> take (length w) s = w) ws = Some w"
  then have w: "w \<noteq> []" "take (length w) s = w"
    by (auto simp: find_Some_iff)
  then have "s \<noteq> []" by auto
  with w show "((ws, drop (length w) s), (ws, s)) \<in> measure (\<lambda>(ws, s). length s)"
    by (cases w) auto
qed

declare strip.simps [simp del]

definition trim :: "string \<Rightarrow> string" where
  "trim s = rev (strip (map rev whiteSpace) (rev (strip whiteSpace s)))"

text \<open>Decimal rendering of a number inside a template string.\<close>

function string_of_nat :: "nat \<Rightarrow> string" where
  "string_of_nat n =
     (if n < 10 then [''0123456789'' ! n]
      else string_of_nat (n div 10) @ [''0123456789'' ! (n mod 10)])"
  by pat_completeness auto
termination
  by (relation "measure id") auto

declare string_of_nat.simps [simp del]

subsection \<open>Plain objects built from query parameters\<close>

text \<open>
  A plain object with string values is an association list with distinct keys, in
  insertion order. \<open>Object.fromEntries\<close> lets a later entry overwrite the value of an
  earlier one with the same key; \<open>URLSearchParams.get\<close> returns the first value.
  \<open>Object.keys\<close> moves integer-like keys to the front: the handlers sort the keys
  straight away, so the model keeps insertion order.
\<close>

type_synonym js_object = "(string \<times> string) list"

definition fromEntries :: "(string \<times> string) list \<Rightarrow> js_object" where
  "fromEntries es = foldl (\<lambda>obj (k, v). AList.update k v obj) [] es"

definition get_prop :: "js_object \<Rightarrow> string \<Rightarrow> string option" where
  "get_prop obj k = map_of obj k"

definition delete_prop :: "string \<Rightarrow> js_object \<Rightarrow> js_object" where
  "delete_prop k obj = AList.delete k obj"

definition Object_keys :: "js_object \<Rightarrow> string list" where
  "Object_keys obj = map fst obj"

definition searchParams_get :: "(string \<times> string) list \<Rightarrow> string \<Rightarrow> string option" where
  "searchParams_get es k = map_of es k"

subsection \<open>Node's crypto module\<close>

definition hex_digit :: "nat \<Rightarrow> char" where
  "hex_digit n = ''0123456789abcdef'' ! (n mod 16)"

text \<open>\<open>digest("hex")\<close>: two lower-case hexadecimal digits for each byte.\<close>

definition hex :: "string \<Rightarrow> string" where
  "hex bs = concat (map (\<lambda>c. [hex_digit (of_char c div 16), hex_digit (of_char c mod 16)]) bs)"

text \<open>
  \<open>crypto.timingSafeEqual\<close> throws a \<open>RangeError\<close> when the two buffers differ in byte
  length, and compares them otherwise.
\<close>

definition timingSafeEqual :: "string \<Rightarrow> string \<Rightarrow> js_error + bool" where
  "timingSafeEqual a b =
     (if length a \<noteq> length b
      then Inl (JsError ''RangeError'' ''Input buffers must have the same byte length'')
      else Inr (a = b))"

subsection \<open>verifyProxySignature\<close>

text \<open>
  The HMAC-SHA256 primitive is a parameter \<open>hmac\<close>: key and message to the raw digest.
  The request is given by the entries of \<open>url.searchParams\<close>, in order.
\<close>

definition provided :: "js_object \<Rightarrow> string option" where
  "provided params = js_or (get_prop params ''signature'') (get_prop params ''hmac'')"

text \<open>
  \<open>Array.prototype.sort\<close> without a comparator orders strings by their UTF-16 code units.
  On well-formed text this is the order of the UTF-8 bytes, except that a
  supplementary-plane character (two surrogates, \<open>D800\<close> to \<open>DFFF\<close>; in UTF-8 a lead byte
  from \<open>F0\<close>) comes before the characters U+E000 to U+FFFF (in UTF-8 the lead bytes \<open>EE\<close>
  and \<open>EF\<close>). The rank of a byte puts \<open>EE\<close> and \<open>EF\<close> above all other bytes; continuation
  bytes (\<open>80\<close> to \<open>BF\<close>) keep their rank.
\<close>

definition code_unit_rank :: "char \<Rightarrow> nat" where
  "code_unit_rank c =
     (let n = of_char c :: nat in if n = 0xEE \<or> n = 0xEF then n + 0x100 else n)"

definition code_units_key :: "string \<Rightarrow> nat list" where
  "code_units_key k = map code_unit_rank k"

definition message :: "js_object \<Rightarrow> string" where
  "message params =
     concat (map (\<lambda>k. k @ ''='' @ (case get_prop params k of Some v \<Rightarrow> v | None \<Rightarrow> ''undefined''))
       (sort_key code_units_key (Object_keys params)))"

record check =
  ok :: bool
  reason :: "string option"

definition verifyProxySignature_p0 ::
  "(string \<Rightarrow> string \<Rightarrow> string) \<Rightarrow> (string \<times> string) list \<Rightarrow> string \<Rightarrow> js_error + check" where
  "verifyProxySignature_p0 hmac entries secret =
     (let params = fromEntries entries in
      case provided params of
        None \<Rightarrow> Inr \<lparr>ok = False, reason = Some ''Missing signature/hmac''\<rparr>
      | Some p \<Rightarrow>
          if p = [] then Inr \<lparr>ok = False, reason = Some ''Missing signature/hmac''\<rparr>
          else
            let params = delete_prop ''hmac'' (delete_prop ''signature'' params);
                digest = hex (hmac secret (message params))
            in (case timingSafeEqual digest p of
                  Inl e \<Rightarrow> Inl e
                | Inr eq \<Rightarrow>
                    Inr (if eq then \<lparr>ok = True, reason = None\<rparr>
                         else \<lparr>ok = False, reason = Some ''Invalid signature/hmac''\<rparr>)))"

definition verifyProxySignature_api ::
  "(string \<Rightarrow> string \<Rightarrow> string) \<Rightarrow> (string \<times> string) list \<Rightarrow> string \<Rightarrow> js_error + check" where
  "verifyProxySignature_api hmac entries secret =
     (let params = fromEntries entries in
      case provided params of
        None \<Rightarrow> Inr \<lparr>ok = False, reason = None\<rparr>
      | Some p \<Rightarrow>
          if p = [] then Inr \<lparr>ok = False, reason = None\<rparr>
          else
            let params = delete_prop ''hmac'' (delete_prop ''signature'' params);
                digest = hex (hmac secret (message params))
            in (case timingSafeEqual digest p of
                  Inl e \<Rightarrow> Inl e
                | Inr eq \<Rightarrow> Inr \<lparr>ok = eq, reason = None\<rparr>))"

subsection \<open>The upstream order lookup\<close>

record tracking =
  number :: "string option"
  url :: "string option"

record fulfillment =
  trackingInfo :: "tracking option list option"

record order_node =
  name :: "string option"
  createdAt :: string
  displayFulfillmentStatus :: "string option"
  fulfillments :: "fulfillment list option"

text \<open>
  One call of \<open>shopifyGraphQL\<close>: the shop, the access token, the API version and the
  variable \<open>q\<close> of the GraphQL document. The document itself is a constant of each handler.
\<close>

record gql_call =
  call_shop :: string
  call_token :: string
  call_apiVersion :: string
  call_q :: string

text \<open>
  What \<open>fetch\<close> and \<open>res.json()\<close> hand back: \<open>res.ok\<close>, \<open>res.status\<close>, the messages of
  \<open>json.errors\<close> when that list is there, and \<open>json.data?.orders?.edges?.[0]?.node\<close>.
\<close>

record http_response =
  res_ok :: bool
  res_status :: nat
  json_errors :: "string option list option"
  json_node :: "order_node option"

text \<open>
  What lies outside the handlers: the HMAC-SHA256 primitive (key, message, raw digest), the
  transport (an error when \<open>fetch\<close> or \<open>res.json()\<close> throws), the parser of \<open>new Date(string)\<close>
  (milliseconds since the epoch, \<open>None\<close> for an invalid date) and the clock read by
  \<open>new Date()\<close>. Times are integers: the model is the double arithmetic of the source as
  long as the two instants are less than \<open>2 ^ 53\<close> milliseconds apart. The last parameter
  is \<open>String.prototype.toLowerCase\<close>.
\<close>

record runtime =
  hmac_sha256 :: "string \<Rightarrow> string \<Rightarrow> string"
  fetch :: "gql_call \<Rightarrow> js_error + http_response"
  Date_parse :: "string \<Rightarrow> int option"
  Date_now :: int
  String_toLowerCase :: "string \<Rightarrow> string"

definition shopifyGraphQL :: "runtime \<Rightarrow> gql_call \<Rightarrow> js_error + order_node option" where
  "shopifyGraphQL rt c =
     (case fetch rt c of
        Inl e \<Rightarrow> Inl e
      | Inr res \<Rightarrow>
          if \<not> res_ok res \<or> json_errors res \<noteq> None
          then Inl (JsError ''Error''
                 (js_or_else
                    (case json_errors res of Some (m # ms) \<Rightarrow> m | _ \<Rightarrow> None)
                    (''Shopify error ('' @ string_of_nat (res_status res) @ '')'')))
          else Inr (json_node res))"

subsection \<open>Stage logic\<close>

text \<open>
  The message of the stage \<open>packing\<close>. Its two umlauts are written as their UTF-8 bytes.
\<close>

definition packing_message :: string where
  "packing_message =
     ''Die Bestellung wird von unserem Lager verpackt, die Sendungsnummer erh''
     @ [CHR 0xC3, CHR 0xA4] @ ''ltst du in K'' @ [CHR 0xC3, CHR 0xBC] @ ''rze per Mail.''"

record stageObj =
  stage :: string
  stage_message :: string

text \<open>A JavaScript number that is an integer or \<open>NaN\<close> (\<open>None\<close>); \<open>NaN < n\<close> is false.\<close>

definition js_less :: "int option \<Rightarrow> int \<Rightarrow> bool" where
  "js_less d n = (case d of None \<Rightarrow> False | Some x \<Rightarrow> x < n)"

definition computeStage_p0 :: "int option \<Rightarrow> stageObj" where
  "computeStage_p0 days =
     (if js_less days 2
      then \<lparr>stage = ''processing'',
            stage_message = ''Die Bestellung ist bei uns eingegangen und wird nun verarbeitet.''\<rparr>
      else if js_less days 4
      then \<lparr>stage = ''packing'',
            stage_message = packing_message\<rparr>
      else \<lparr>stage = ''shipped'', stage_message = ''Bestellung versendet.''\<rparr>)"

definition computeStage_api :: "int option \<Rightarrow> string" where
  "computeStage_api days =
     (if js_less days 2 then ''processing''
      else if js_less days 4 then ''packing''
      else ''shipped'')"

definition getMessage :: "string \<Rightarrow> string" where
  "getMessage st =
     (if st = ''processing''
      then ''Die Bestellung ist bei uns eingegangen und wird nun verarbeitet.''
      else if st = ''packing''
      then packing_message
      else ''Bestellung versendet.'')"

text \<open>
  \<open>Math.floor((now - createdAt) / (1000 * 60 * 60 * 24))\<close>; \<open>div\<close> on \<^typ>\<open>int\<close> rounds
  towards minus infinity, as \<open>Math.floor\<close> does.
\<close>

definition daysSince :: "runtime \<Rightarrow> order_node \<Rightarrow> int option" where
  "daysSince rt node =
     (case Date_parse rt (createdAt node) of
        None \<Rightarrow> None
      | Some created \<Rightarrow> Some ((Date_now rt - created) div (1000 * 60 * 60 * 24)))"

definition or_empty :: "'a list option \<Rightarrow> 'a list" where
  "or_empty xs = (case xs of None \<Rightarrow> [] | Some ys \<Rightarrow> ys)"

definition hasTracking_p0 :: "order_node \<Rightarrow> bool" where
  "hasTracking_p0 node =
     list_ex (\<lambda>f.
        list_ex (\<lambda>t. case t of None \<Rightarrow> False | Some ti \<Rightarrow> truthy (number ti) \<or> truthy (url ti))
          (or_empty (trackingInfo f)))
       (or_empty (fulfillments node))"

definition hasTracking_api :: "order_node \<Rightarrow> bool" where
  "hasTracking_api node =
     (case fulfillments node of
        None \<Rightarrow> False
      | Some fs \<Rightarrow>
          list_ex (\<lambda>f.
             case trackingInfo f of
               None \<Rightarrow> False
             | Some ts \<Rightarrow> list_ex (\<lambda>t. case t of None \<Rightarrow> False | Some ti \<Rightarrow> truthy (number ti)) ts)
            fs)"

text \<open>\<open>String(v)\<close> of an optional string; neither \<open>"null"\<close> nor \<open>"undefined"\<close> is a status.\<close>

definition String_of :: "string option \<Rightarrow> string" where
  "String_of v = (case v of None \<Rightarrow> ''undefined'' | Some s \<Rightarrow> s)"

text \<open>The value of \<open>stageObj\<close> after the override in \<^verbatim>\<open>part_000\<close>.\<close>

definition stageObj_p0 :: "order_node \<Rightarrow> int option \<Rightarrow> stageObj" where
  "stageObj_p0 node days =
     (if hasTracking_p0 node \<or> toUpperCase (String_of (displayFulfillmentStatus node)) = ''FULFILLED''
      then \<lparr>stage = ''shipped'', stage_message = ''Bestellung versendet.''\<rparr>
      else computeStage_p0 days)"

text \<open>The value of \<open>stage\<close> after the override in \<^verbatim>\<open>order-status.js\<close>.\<close>

definition stage_api :: "order_node \<Rightarrow> int option \<Rightarrow> string" where
  "stage_api node days =
     (if hasTracking_api node \<or> displayFulfillmentStatus node = Some ''FULFILLED''
      then ''shipped''
      else computeStage_api days)"

subsection \<open>Requests, configuration and responses\<close>

text \<open>\<open>process.env\<close>, as far as the handlers read it.\<close>

record env =
  SHOPIFY_SHOP :: "string option"
  SHOPIFY_ACCESS_TOKEN :: "string option"
  SHOPIFY_API_VERSION :: "string option"
  SHOPIFY_API_SECRET :: "string option"

text \<open>
  A request, as far as the handlers read it: the decoded entries of \<open>url.searchParams\<close>
  in the order of the query string, and the \<open>accept\<close> header.
\<close>

record request =
  searchParams :: "(string \<times> string) list"
  accept :: "string option"

record payload =
  pl_orderName :: "string option"
  pl_createdAt :: string
  pl_daysSince :: "int option"
  pl_stage :: string
  pl_message :: string

text \<open>The argument of \<open>renderHtml\<close> in \<^verbatim>\<open>order-status.js\<close>.\<close>

record html_args =
  ha_orderName :: "string option"
  ha_stage :: string
  ha_message :: string
  ha_daysSince :: "int option"

text \<open>
  A response body: a JSON object of strings, the payload as JSON, or the page that
  \<open>renderHtml\<close> makes of its argument. \<open>renderHtml\<close> is a template and takes no decision;
  the page is represented by the argument it is rendered from.
\<close>

datatype body =
  Json "(string \<times> string) list"
| Json_payload payload
| Html payload
| Html_api html_args

record response =
  status :: nat
  body :: body

definition startsWith :: "string \<Rightarrow> string \<Rightarrow> bool" where
  "startsWith s p = (take (length p) s = p)"

definition String_includes :: "string \<Rightarrow> string \<Rightarrow> bool" where
  "String_includes s t = list_ex (\<lambda>i. take (length t) (drop i s) = t) [0 ..< Suc (length s)]"

text \<open>\<open>Array.prototype.join\<close>.\<close>

fun join :: "string \<Rightarrow> string list \<Rightarrow> string" where
  "join sep [] = []"
| "join sep [x] = x"
| "join sep (x # y # ys) = x @ sep @ join sep (y # ys)"

definition wantsHtml :: "request \<Rightarrow> bool" where
  "wantsHtml req = String_includes (js_or_else (accept req) []) ''text/html''"

subsection \<open>The search string and the parameters\<close>

text \<open>The value of \<open>queryString\<close> in \<^verbatim>\<open>part_000\<close> and in \<^verbatim>\<open>order-status.js\<close>.\<close>

definition queryString_p0 :: "string \<Rightarrow> string \<Rightarrow> string" where
  "queryString_p0 orderParam emailParam =
     (let normalized = (if startsWith orderParam ''#'' then orderParam else ''#'' @ orderParam);
          parts = [''name:'' @ normalized, ''name:'' @ orderParam];
          queryString = ''('' @ join '' OR '' parts @ '')''
      in if emailParam \<noteq> [] then queryString @ '' AND email:'' @ emailParam else queryString)"

definition queryString_api :: "string \<Rightarrow> string \<Rightarrow> string" where
  "queryString_api orderParam emailParam =
     (let normalized = (if startsWith orderParam ''#'' then orderParam else ''#'' @ orderParam);
          queryString = ''(name:'' @ normalized @ '' OR name:'' @ orderParam @ '')''
      in if emailParam \<noteq> [] then queryString @ '' AND email:'' @ emailParam else queryString)"

text \<open>The constants \<open>orderParam\<close> and \<open>emailParam\<close> of the handlers.\<close>

definition orderParam :: "request \<Rightarrow> string" where
  "orderParam req = trim (js_or_else (searchParams_get (searchParams req) ''order'') [])"

definition emailParam_p0 :: "runtime \<Rightarrow> request \<Rightarrow> string" where
  "emailParam_p0 rt req =
     String_toLowerCase rt (trim (js_or_else (searchParams_get (searchParams req) ''email'') []))"

definition emailParam_api :: "request \<Rightarrow> string" where
  "emailParam_api req = trim (js_or_else (searchParams_get (searchParams req) ''email'') [])"

subsection \<open>The handler of part_000\<close>

definition payload_p0 :: "runtime \<Rightarrow> order_node \<Rightarrow> payload" where
  "payload_p0 rt node =
     (let days = daysSince rt node;
          so = stageObj_p0 node days
      in \<lparr>pl_orderName = name node, pl_createdAt = createdAt node, pl_daysSince = days,
          pl_stage = stage so, pl_message = stage_message so\<rparr>)"

text \<open>The \<open>catch\<close> block.\<close>

definition catch_p0 :: "js_error \<Rightarrow> response" where
  "catch_p0 e =
     \<lparr>status = 500,
      body = Json [(''error'', ''Server error''),
                   (''message'', if err_message e \<noteq> [] then err_message e else String_of_error e)]\<rparr>"

text \<open>The argument of the call of \<open>shopifyGraphQL\<close>.\<close>

definition call_p0 :: "runtime \<Rightarrow> env \<Rightarrow> request \<Rightarrow> gql_call" where
  "call_p0 rt env req =
     \<lparr>call_shop = String_of (SHOPIFY_SHOP env),
      call_token = String_of (SHOPIFY_ACCESS_TOKEN env),
      call_apiVersion = js_or_else (SHOPIFY_API_VERSION env) ''2026-01'',
      call_q = queryString_p0 (orderParam req) (emailParam_p0 rt req)\<rparr>"

text \<open>
  The handler from the reading of the parameters on. The result is the list of calls of
  \<open>shopifyGraphQL\<close> that were made, and the response.
\<close>

definition lookup_p0 :: "runtime \<Rightarrow> env \<Rightarrow> request \<Rightarrow> gql_call list \<times> response" where
  "lookup_p0 rt env req =
     (if orderParam req = []
      then ([], \<lparr>status = 400,
                 body = Json [(''error'', ''Missing order''),
                              (''hint'', ''Nutze ?order=1043&email=kunde@mail.de'')]\<rparr>)
      else
        (case shopifyGraphQL rt (call_p0 rt env req) of
           Inl e \<Rightarrow> ([call_p0 rt env req], catch_p0 e)
         | Inr None \<Rightarrow>
             ([call_p0 rt env req],
              \<lparr>status = 404,
               body = Json [(''error'', ''Order not found''),
                            (''hint'', ''Pr'' @ [CHR 0xC3, CHR 0xBC]
                               @ ''fe order und (idealerweise) email Parameter'')]\<rparr>)
         | Inr (Some node) \<Rightarrow>
             ([call_p0 rt env req],
              \<lparr>status = 200,
               body = (if wantsHtml req then Html (payload_p0 rt node)
                       else Json_payload (payload_p0 rt node))\<rparr>)))"

definition unauthorized_p0 :: "check \<Rightarrow> response" where
  "unauthorized_p0 c =
     \<lparr>status = 401,
      body = Json ((''error'', ''Unauthorized proxy request'')
                   # (case reason c of None \<Rightarrow> [] | Some r \<Rightarrow> [(''reason'', r)]))\<rparr>"

definition handler_p0 :: "runtime \<Rightarrow> env \<Rightarrow> request \<Rightarrow> gql_call list \<times> response" where
  "handler_p0 rt env req =
     (if \<not> truthy (SHOPIFY_SHOP env) \<or> \<not> truthy (SHOPIFY_ACCESS_TOKEN env)
      then ([], \<lparr>status = 500,
                 body = Json [(''error'', ''Missing SHOPIFY_SHOP / SHOPIFY_ACCESS_TOKEN env'')]\<rparr>)
      else if truthy (SHOPIFY_API_SECRET env)
      then (case verifyProxySignature_p0 (hmac_sha256 rt) (searchParams req)
                   (String_of (SHOPIFY_API_SECRET env)) of
              Inl e \<Rightarrow> ([], catch_p0 e)
            | Inr c \<Rightarrow> if \<not> ok c then ([], unauthorized_p0 c) else lookup_p0 rt env req)
      else lookup_p0 rt env req)"

subsection \<open>The handler of api/order-status.js\<close>

definition html_args_api :: "runtime \<Rightarrow> order_node \<Rightarrow> html_args" where
  "html_args_api rt node =
     (let days = daysSince rt node;
          st = stage_api node days
      in \<lparr>ha_orderName = name node, ha_stage = st, ha_message = getMessage st,
          ha_daysSince = days\<rparr>)"

definition catch_api :: "js_error \<Rightarrow> response" where
  "catch_api e =
     \<lparr>status = 500, body = Json [(''error'', ''Server error''), (''message'', err_message e)]\<rparr>"

text \<open>The argument of the call of \<open>shopifyGraphQL\<close>.\<close>

definition call_api :: "env \<Rightarrow> request \<Rightarrow> gql_call" where
  "call_api env req =
     \<lparr>call_shop = String_of (SHOPIFY_SHOP env),
      call_token = String_of (SHOPIFY_ACCESS_TOKEN env),
      call_apiVersion = js_or_else (SHOPIFY_API_VERSION env) ''2025-01'',
      call_q = queryString_api (orderParam req) (emailParam_api req)\<rparr>"

definition lookup_api :: "runtime \<Rightarrow> env \<Rightarrow> request \<Rightarrow> gql_call list \<times> response" where
  "lookup_api rt env req =
     (if orderParam req = []
      then ([], \<lparr>status = 400, body = Json [(''error'', ''Missing order parameter'')]\<rparr>)
      else
        (case shopifyGraphQL rt (call_api env req) of
           Inl e \<Rightarrow> ([call_api env req], catch_api e)
         | Inr None \<Rightarrow>
             ([call_api env req], \<lparr>status = 404, body = Json [(''error'', ''Order not found'')]\<rparr>)
         | Inr (Some node) \<Rightarrow>
             ([call_api env req], \<lparr>status = 200, body = Html_api (html_args_api rt node)\<rparr>)))"

definition handler_api :: "runtime \<Rightarrow> env \<Rightarrow> request \<Rightarrow> gql_call list \<times> response" where
  "handler_api rt env req =
     (if \<not> truthy (SHOPIFY_SHOP env) \<or> \<not> truthy (SHOPIFY_ACCESS_TOKEN env)
      then ([], \<lparr>status = 500,
                 body = Json [(''error'', ''Missing SHOPIFY_SHOP / SHOPIFY_ACCESS_TOKEN'')]\<rparr>)
      else if truthy (SHOPIFY_API_SECRET env)
      then (case verifyProxySignature_api (hmac_sha256 rt) (searchParams req)
                   (String_of (SHOPIFY_API_SECRET env)) of
              Inl e \<Rightarrow> ([], catch_api e)
            | Inr c \<Rightarrow>
                if \<not> ok c
                then ([], \<lparr>status = 401, body = Json [(''error'', ''Invalid proxy signature'')]\<rparr>)
                else lookup_api rt env req)
      else lookup_api rt env req)"

subsection \<open>The specification's notions\<close>

text \<open>
  The definitions of this subsection follow the words of the specification, not the code;
  the theorems compare them with the handlers.
\<close>

text \<open>Equality of two strings compared case-insensitively.\<close>

definition equals_ignoring_case :: "string \<Rightarrow> string \<Rightarrow> bool" where
  "equals_ignoring_case s t = (toLowerCase s = toLowerCase t)"

text \<open>The order's fulfillment status equals \<open>FULFILLED\<close>, case-insensitively.\<close>

definition fulfilled_status :: "order_node \<Rightarrow> bool" where
  "fulfilled_status node =
     (case displayFulfillmentStatus node of
        None \<Rightarrow> False
      | Some s \<Rightarrow> equals_ignoring_case s ''FULFILLED'')"

definition non_empty :: "string option \<Rightarrow> bool" where
  "non_empty v = (case v of None \<Rightarrow> False | Some s \<Rightarrow> 0 < length s)"

text \<open>
  Some fulfillment entry contains a tracking entry with a non-empty tracking number or a
  non-empty tracking URL.
\<close>

definition tracking_evidence :: "order_node \<Rightarrow> bool" where
  "tracking_evidence node =
     (\<exists>f \<in> set (or_empty (fulfillments node)).
        \<exists>t \<in> set (or_empty (trackingInfo f)).
          case t of None \<Rightarrow> False | Some ti \<Rightarrow> non_empty (number ti) \<or> non_empty (url ti))"

text \<open>Some fulfillment entry contains a tracking entry with a non-empty tracking number.\<close>

definition number_evidence :: "order_node \<Rightarrow> bool" where
  "number_evidence node =
     (\<exists>f \<in> set (or_empty (fulfillments node)).
        \<exists>t \<in> set (or_empty (trackingInfo f)).
          case t of None \<Rightarrow> False | Some ti \<Rightarrow> non_empty (number ti))"

text \<open>
  The parameter map of a query string: each name with the value of its last occurrence,
  which is what \<open>Object.fromEntries\<close> keeps.
\<close>

definition param_map :: "(string \<times> string) list \<Rightarrow> string \<rightharpoonup> string" where
  "param_map es = map_of (rev es)"

text \<open>
  The canonical message: the keys other than \<open>signature\<close> and \<open>hmac\<close> in lexicographic
  order of their bytes, which is the order of their code points, \<open>key=value\<close> for each,
  concatenated with no separator.
\<close>

definition canonical_message :: "(string \<times> string) list \<Rightarrow> string" where
  "canonical_message es =
     concat (map (\<lambda>k. k @ ''='' @ the (param_map es k))
       (sorted_list_of_set (fst ` set es - {''signature'', ''hmac''})))"

text \<open>The same message with the keys in lexicographic order of their UTF-16 code units.\<close>

definition code_unit_message :: "(string \<times> string) list \<Rightarrow> string" where
  "code_unit_message es =
     concat (map (\<lambda>k. k @ ''='' @ the (param_map es k))
       (sort_key code_units_key (sorted_list_of_set (fst ` set es - {''signature'', ''hmac''}))))"

text \<open>
  A key without a supplementary-plane character: in UTF-8, without a lead byte from
  \<open>F0\<close> on.
\<close>

definition bmp_only :: "string \<Rightarrow> bool" where
  "bmp_only k = list_all (\<lambda>c. of_char c < (0xF0 :: nat)) k"

text \<open>
  The StageResult of a response: stage, message and \<open>daysSince\<close> of a success response,
  nothing for any other response.
\<close>

definition stage_result :: "response \<Rightarrow> (string \<times> string \<times> int option) option" where
  "stage_result r =
     (if status r = 200
      then (case body r of
              Json_payload p \<Rightarrow> Some (pl_stage p, pl_message p, pl_daysSince p)
            | Html p \<Rightarrow> Some (pl_stage p, pl_message p, pl_daysSince p)
            | Html_api a \<Rightarrow> Some (ha_stage a, ha_message a, ha_daysSince a)
            | Json e \<Rightarrow> None)
      else None)"



text \<open>The request passes the signature gate: no secret is configured, or the check is ok.\<close>

definition authorized_p0 :: "runtime \<Rightarrow> env \<Rightarrow> request \<Rightarrow> bool" where
  "authorized_p0 rt env req =
     (if truthy (SHOPIFY_API_SECRET env)
      then (case verifyProxySignature_p0 (hmac_sha256 rt) (searchParams req)
                   (String_of (SHOPIFY_API_SECRET env)) of
              Inl e \<Rightarrow> False
            | Inr c \<Rightarrow> ok c)
      else True)"

definition authorized_api :: "runtime \<Rightarrow> env \<Rightarrow> request \<Rightarrow> bool" where
  "authorized_api rt env req =
     (if truthy (SHOPIFY_API_SECRET env)
      then (case verifyProxySignature_api (hmac_sha256 rt) (searchParams req)
                   (String_of (SHOPIFY_API_SECRET env)) of
              Inl e \<Rightarrow> False
            | Inr c \<Rightarrow> ok c)
      else True)"

text \<open>Shop and access token are configured.\<close>

definition configured :: "env \<Rightarrow> bool" where
  "configured env = (truthy (SHOPIFY_SHOP env) \<and> truthy (SHOPIFY_ACCESS_TOKEN env))"

subsection \<open>Example data\<close>

text \<open>
  A stand-in for HMAC-SHA256 with a digest of 32 bytes, an order, a runtime that finds this
  order and lower-cases ASCII letters, and a configuration. They serve as the concrete
  inputs of the instances below.
\<close>

definition example_hmac :: "string \<Rightarrow> string \<Rightarrow> string" where
  "example_hmac k m = take 32 (k @ m @ replicate 32 (CHR ''*''))"

definition example_node :: order_node where
  "example_node =
     \<lparr>name = Some ''#1043'', createdAt = ''2026-01-01T00:00:00.000Z'',
      displayFulfillmentStatus = Some ''UNFULFILLED'', fulfillments = Some []\<rparr>"

definition example_rt :: "int \<Rightarrow> order_node \<Rightarrow> runtime" where
  "example_rt now node =
     \<lparr>hmac_sha256 = example_hmac,
      fetch = (\<lambda>c. Inr \<lparr>res_ok = True, res_status = 200, json_errors = None,
                          json_node = Some node\<rparr>),
      Date_parse = (\<lambda>s. if s = ''2026-01-01T00:00:00.000Z'' then Some 1767225600000 else None),
      Date_now = now,
      String_toLowerCase = toLowerCase\<rparr>"

definition example_env :: "string option \<Rightarrow> env" where
  "example_env secret =
     \<lparr>SHOPIFY_SHOP = Some ''deucces.myshopify.com'', SHOPIFY_ACCESS_TOKEN = Some ''shpat_0123'',
      SHOPIFY_API_VERSION = None, SHOPIFY_API_SECRET = secret\<rparr>"

section \<open>Auxiliary facts\<close>

subsection \<open>Case conversion and fulfillment evidence\<close>

lemma upper_lower_char: "upper_char (lower_char c) = upper_char c"
proof (cases "65 \<le> (of_char c :: nat) \<and> (of_char c :: nat) \<le> 90")
  case True
  then have l: "lower_char c = char_of (of_char c + 32 :: nat)"
    by (simp add: lower_char_def)
  have n: "(of_char (char_of (of_char c + 32 :: nat) :: char) :: nat) = of_char c + 32"
    using True by simp
  have "upper_char (lower_char c) = char_of (of_char c :: nat)"
    unfolding l upper_char_def Let_def n using True by simp
  moreover have "upper_char c = c"
    using True by (simp add: upper_char_def)
  ultimately show ?thesis by simp
next
  case False
  then show ?thesis by (auto simp: lower_char_def Let_def)
qed

lemma lower_upper_char: "lower_char (upper_char c) = lower_char c"
proof (cases "97 \<le> (of_char c :: nat) \<and> (of_char c :: nat) \<le> 122")
  case True
  define m :: nat where "m = of_char c - 32"
  have m: "65 \<le> m" "m \<le> 90" "m + 32 = of_char c"
    using True unfolding m_def by arith+
  have u: "upper_char c = char_of m"
    using True by (simp add: upper_char_def m_def)
  have n: "(of_char (char_of m :: char) :: nat) = m"
    using m by simp
  have "lower_char (upper_char c) = char_of (m + 32)"
    unfolding u lower_char_def Let_def n using m by simp
  moreover have "lower_char c = c"
    using True by (simp add: lower_char_def)
  ultimately show ?thesis
    using m by simp
next
  case False
  then show ?thesis by (auto simp: upper_char_def Let_def)
qed

lemma or_empty_simps: "or_empty None = []" "or_empty (Some ys) = ys"
  by (simp_all add: or_empty_def)

lemma toUpperCase_FULFILLED: "toUpperCase ''fulfilled'' = ''FULFILLED''"
  by code_simp

lemma toLowerCase_FULFILLED: "toLowerCase ''FULFILLED'' = ''fulfilled''"
  by code_simp

lemma toLowerCase_toUpperCase: "toLowerCase (toUpperCase s) = toLowerCase s"
  by (simp add: toLowerCase_def toUpperCase_def lower_upper_char)

lemma toUpperCase_toLowerCase: "toUpperCase (toLowerCase s) = toUpperCase s"
  by (simp add: toLowerCase_def toUpperCase_def upper_lower_char)

lemma upper_is_FULFILLED:
  "toUpperCase s = ''FULFILLED'' \<longleftrightarrow> equals_ignoring_case s ''FULFILLED''"
proof
  assume "toUpperCase s = ''FULFILLED''"
  then have "toLowerCase (toUpperCase s) = ''fulfilled''"
    by (simp only: toLowerCase_FULFILLED)
  then show "equals_ignoring_case s ''FULFILLED''"
    by (simp only: equals_ignoring_case_def toLowerCase_FULFILLED toLowerCase_toUpperCase)
next
  assume "equals_ignoring_case s ''FULFILLED''"
  then have "toLowerCase s = ''fulfilled''"
    by (simp only: equals_ignoring_case_def toLowerCase_FULFILLED)
  then have "toUpperCase (toLowerCase s) = ''FULFILLED''"
    by (simp only: toUpperCase_FULFILLED)
  then show "toUpperCase s = ''FULFILLED''"
    by (simp only: toUpperCase_toLowerCase)
qed

lemma undefined_not_FULFILLED: "toUpperCase ''undefined'' \<noteq> ''FULFILLED''"
  by (simp add: toUpperCase_def)

lemma truthy_non_empty: "truthy v = non_empty v"
  by (cases v) (simp_all add: non_empty_def)

lemma hasTracking_p0_iff: "hasTracking_p0 node \<longleftrightarrow> tracking_evidence node"
  unfolding hasTracking_p0_def tracking_evidence_def list_ex_iff truthy_non_empty ..

lemma hasTracking_api_iff: "hasTracking_api node \<longleftrightarrow> number_evidence node"
proof (cases "fulfillments node")
  case None
  then show ?thesis
    by (simp add: hasTracking_api_def number_evidence_def or_empty_simps)
next
  case (Some fs)
  have inner: "(case trackingInfo f of None \<Rightarrow> False
       | Some ts \<Rightarrow> list_ex (\<lambda>t. case t of None \<Rightarrow> False | Some ti \<Rightarrow> truthy (number ti)) ts)
      \<longleftrightarrow> (\<exists>t \<in> set (or_empty (trackingInfo f)).
             case t of None \<Rightarrow> False | Some ti \<Rightarrow> non_empty (number ti))" for f :: fulfillment
    by (cases "trackingInfo f") (simp_all only: or_empty_simps option.case list_ex_iff truthy_non_empty, simp)
  show ?thesis
    unfolding hasTracking_api_def number_evidence_def Some option.case or_empty_simps
      list_ex_iff [of _ fs] inner ..
qed

lemma fulfilled_p0_iff:
  "toUpperCase (String_of (displayFulfillmentStatus node)) = ''FULFILLED'' \<longleftrightarrow> fulfilled_status node"
proof (cases "displayFulfillmentStatus node")
  case None
  then show ?thesis
    by (simp add: String_of_def fulfilled_status_def undefined_not_FULFILLED)
next
  case (Some s)
  then show ?thesis
    by (simp add: String_of_def fulfilled_status_def upper_is_FULFILLED)
qed

subsection \<open>Objects and the canonical message\<close>

lemma foldl_update:
  "distinct (map fst acc) \<Longrightarrow>
     distinct (map fst (foldl (\<lambda>obj (k, v). AList.update k v obj) acc es))
     \<and> fst ` set (foldl (\<lambda>obj (k, v). AList.update k v obj) acc es) = fst ` set acc \<union> fst ` set es
     \<and> map_of (foldl (\<lambda>obj (k, v). AList.update k v obj) acc es) = map_of acc ++ map_of (rev es)"
proof (induction es arbitrary: acc)
  case Nil
  then show ?case by simp
next
  case (Cons e es)
  obtain k v where e: "e = (k, v)" by (cases e)
  let ?f = "\<lambda>obj (k, v). AList.update k v obj"
  have step: "foldl ?f acc (e # es) = foldl ?f (AList.update k v acc) es"
    by (simp add: e)
  have d: "distinct (map fst (AList.update k v acc))"
    using Cons.prems by (rule distinct_update)
  have keys: "fst ` set (AList.update k v acc) \<union> fst ` set es = fst ` set acc \<union> fst ` set (e # es)"
    by (auto simp: dom_update e)
  have "map_of (rev (e # es)) = [k \<mapsto> v] ++ map_of (rev es)"
    by (simp add: e)
  then have m: "map_of (AList.update k v acc) ++ map_of (rev es) = map_of acc ++ map_of (rev (e # es))"
    by (simp only: update_conv') (rule ext, simp add: map_add_def split: option.splits)
  from Cons.IH [OF d] show ?case
    unfolding step keys m .
qed

lemma fromEntries_props:
  "distinct (map fst (fromEntries es))"
  "fst ` set (fromEntries es) = fst ` set es"
  "map_of (fromEntries es) = param_map es"
  using foldl_update [of "[]" es] by (simp_all add: fromEntries_def param_map_def)



lemma param_map_dom: "k \<in> fst ` set es \<Longrightarrow> \<exists>v. param_map es k = Some v"
proof -
  assume "k \<in> fst ` set es"
  then have "k \<in> fst ` set (rev es)" by simp
  then have "k \<in> dom (map_of (rev es))" by (simp only: dom_map_of_conv_image_fst)
  then show ?thesis by (auto simp: param_map_def)
qed

lemma inj_code_unit_rank: "inj code_unit_rank"
proof (rule injI)
  fix a b :: char
  assume e: "code_unit_rank a = code_unit_rank b"
  define m n :: nat where "m = of_char a" and "n = of_char b"
  have "m < 256" "n < 256"
    by (simp_all add: m_def n_def)
  moreover from e have "(if m = 0xEE \<or> m = 0xEF then m + 0x100 else m)
      = (if n = 0xEE \<or> n = 0xEF then n + 0x100 else n)"
    unfolding code_unit_rank_def Let_def m_def n_def .
  ultimately have "m = n"
    by (auto split: if_splits)
  then show "a = b"
    by (simp add: m_def n_def)
qed

lemma inj_code_units_key: "inj code_units_key"
proof -
  have e: "code_units_key = map code_unit_rank"
    by (rule ext) (simp add: code_units_key_def)
  show ?thesis
    unfolding e by (rule inj_mapI [OF inj_code_unit_rank])
qed

lemma sort_key_code_units_unique:
  assumes "distinct xs" and "distinct ys" and "set xs = set ys"
  shows "sort_key code_units_key xs = sort_key code_units_key ys"
proof -
  let ?a = "map code_units_key (sort_key code_units_key xs)"
  let ?b = "map code_units_key (sort_key code_units_key ys)"
  have i: "inj_on code_units_key A" for A
    using inj_code_units_key by (rule inj_on_subset) simp
  have "sorted ?a"
    by (simp only: sorted_sort_key)
  moreover have "distinct ?a"
    using assms(1) by (simp add: distinct_map i)
  moreover have "sorted ?b"
    by (simp only: sorted_sort_key)
  moreover have "distinct ?b"
    using assms(2) by (simp add: distinct_map i)
  moreover have "set ?a = set ?b"
    using assms(3) by simp
  ultimately have "?a = ?b"
    by (rule sorted_distinct_set_unique)
  then show ?thesis
    by (simp only: inj_map_eq_map [OF inj_code_units_key])
qed

lemma code_unit_rank_less:
  assumes "of_char a < (0xF0 :: nat)" and "of_char b < (0xF0 :: nat)" and "a < b"
  shows "code_unit_rank a < code_unit_rank b"
proof -
  from assms(3) have "(of_char a :: nat) < of_char b"
    by (simp add: less_char_def)
  with assms(1,2) show ?thesis
    by (auto simp: code_unit_rank_def Let_def)
qed

lemma code_units_key_mono:
  "bmp_only k1 \<Longrightarrow> bmp_only k2 \<Longrightarrow> k1 \<le> k2 \<Longrightarrow> code_units_key k1 \<le> code_units_key k2"
proof (induction k1 arbitrary: k2)
  case Nil
  then show ?case by (simp add: code_units_key_def)
next
  case (Cons a k1)
  from Cons.prems(3) obtain b k2' where k2: "k2 = b # k2'"
    by (cases k2) simp_all
  from Cons.prems(1,2) have bmp: "of_char a < (0xF0 :: nat)" "of_char b < (0xF0 :: nat)"
    "bmp_only k1" "bmp_only k2'"
    by (simp_all add: bmp_only_def k2)
  from Cons.prems(3) consider "a < b" | "a = b" "k1 \<le> k2'"
    by (auto simp: k2)
  then show ?case
  proof cases
    case 1
    then have "code_unit_rank a < code_unit_rank b"
      using bmp(1,2) by (simp add: code_unit_rank_less)
    then show ?thesis
      by (simp add: code_units_key_def k2)
  next
    case 2
    then have "code_units_key k1 \<le> code_units_key k2'"
      using bmp(3,4) by (simp add: Cons.IH)
    with 2(1) show ?thesis
      by (simp add: code_units_key_def k2)
  qed
qed

lemma sort_key_code_units_bmp:
  assumes "\<forall>k \<in> set ks. bmp_only k" and "sorted ks"
  shows "sort_key code_units_key ks = ks"
proof (rule sort_key_id_if_sorted)
  have "sorted_wrt (\<lambda>x y. code_units_key x \<le> code_units_key y) ks"
    using _ assms(2)
  proof (rule sorted_wrt_mono_rel)
    fix x y
    assume "x \<in> set ks" "y \<in> set ks" "x \<le> y"
    with assms(1) show "code_units_key x \<le> code_units_key y"
      by (simp add: code_units_key_mono)
  qed
  then show "sorted (map code_units_key ks)"
    by (simp only: sorted_map)
qed

lemma message_code_unit:
  "message (delete_prop ''hmac'' (delete_prop ''signature'' (fromEntries es))) = code_unit_message es"
proof -
  let ?obj = "delete_prop ''hmac'' (delete_prop ''signature'' (fromEntries es))"
  let ?S = "fst ` set es - {''signature'', ''hmac''}"
  have keys: "Object_keys ?obj = removeAll ''hmac'' (removeAll ''signature'' (map fst (fromEntries es)))"
    by (simp add: Object_keys_def delete_prop_def delete_keys)
  have dist: "distinct (Object_keys ?obj)"
    unfolding keys by (simp add: distinct_removeAll fromEntries_props(1))
  have "set (map fst (fromEntries es)) = fst ` set es"
    using fromEntries_props(2) [of es] by simp
  then have set_keys: "set (Object_keys ?obj) = ?S"
    unfolding keys by auto
  have sorted: "sort_key code_units_key (Object_keys ?obj)
      = sort_key code_units_key (sorted_list_of_set ?S)"
    using dist by (rule sort_key_code_units_unique) (simp_all add: set_keys)
  have val: "(case get_prop ?obj k of Some v \<Rightarrow> v | None \<Rightarrow> ''undefined'') = the (param_map es k)"
    if "k \<in> ?S" for k
  proof -
    from that have ne: "k \<noteq> ''signature''" "k \<noteq> ''hmac''" and "k \<in> fst ` set es"
      by auto
    then obtain v where v: "param_map es k = Some v"
      using param_map_dom by blast
    have "get_prop ?obj k = param_map es k"
      using ne by (simp add: get_prop_def delete_prop_def fromEntries_props(3))
    with v show ?thesis by simp
  qed
  have "message ?obj =
      concat (map (\<lambda>k. k @ ''='' @ (case get_prop ?obj k of Some v \<Rightarrow> v | None \<Rightarrow> ''undefined''))
        (sort_key code_units_key (sorted_list_of_set ?S)))"
    by (simp only: message_def sorted)
  also have "\<dots> = code_unit_message es"
    unfolding code_unit_message_def
    by (rule arg_cong [where f = concat], rule map_cong) (simp_all add: val)
  finally show ?thesis .
qed

lemma code_unit_message_canonical:
  assumes "list_all bmp_only (map fst es)"
  shows "code_unit_message es = canonical_message es"
proof -
  let ?S = "fst ` set es - {''signature'', ''hmac''}"
  have "\<forall>k \<in> set (sorted_list_of_set ?S). bmp_only k"
    using assms by (auto simp: list_all_iff)
  then have "sort_key code_units_key (sorted_list_of_set ?S) = sorted_list_of_set ?S"
    by (rule sort_key_code_units_bmp) simp
  then show ?thesis
    by (simp only: code_unit_message_def canonical_message_def)
qed

lemma length_hex: "length (hex bs) = 2 * length bs"
  by (induction bs) (simp_all add: hex_def)

lemma hex_digit_lower: "hex_digit n \<in> set ''0123456789abcdef''"
proof -
  have "n mod 16 < length ''0123456789abcdef''" by simp
  then show ?thesis unfolding hex_digit_def by (rule nth_mem)
qed

lemma hex_lower: "set (hex bs) \<subseteq> set ''0123456789abcdef''"
  unfolding hex_def using hex_digit_lower by (induction bs) auto

lemma verify_p0_unfold:
  "verifyProxySignature_p0 hmac es secret =
     (case provided (fromEntries es) of
        None \<Rightarrow> Inr \<lparr>ok = False, reason = Some ''Missing signature/hmac''\<rparr>
      | Some p \<Rightarrow>
          if p = [] then Inr \<lparr>ok = False, reason = Some ''Missing signature/hmac''\<rparr>
          else (case timingSafeEqual (hex (hmac secret (code_unit_message es))) p of
                  Inl e \<Rightarrow> Inl e
                | Inr eq \<Rightarrow>
                    Inr (if eq then \<lparr>ok = True, reason = None\<rparr>
                         else \<lparr>ok = False, reason = Some ''Invalid signature/hmac''\<rparr>)))"
  by (cases "provided (fromEntries es)")
    (simp_all add: verifyProxySignature_p0_def Let_def message_code_unit)

lemma verify_api_unfold:
  "verifyProxySignature_api hmac es secret =
     (case provided (fromEntries es) of
        None \<Rightarrow> Inr \<lparr>ok = False, reason = None\<rparr>
      | Some p \<Rightarrow>
          if p = [] then Inr \<lparr>ok = False, reason = None\<rparr>
          else (case timingSafeEqual (hex (hmac secret (code_unit_message es))) p of
                  Inl e \<Rightarrow> Inl e
                | Inr eq \<Rightarrow> Inr \<lparr>ok = eq, reason = None\<rparr>))"
  by (cases "provided (fromEntries es)")
    (simp_all add: verifyProxySignature_api_def Let_def message_code_unit)

section \<open>The stage resolver\<close>

text \<open>
  C1 (override rule), in the form that holds of each handler. In the handler of \<^verbatim>\<open>part_000\<close>: if the fulfillment
  status equals \<open>FULFILLED\<close> compared case-insensitively, or some fulfillment entry
  contains a tracking entry with a non-empty tracking number or a non-empty tracking URL,
  then the stage is \<open>shipped\<close> with the fixed message, whatever the age (also for an
  invalid date). In the handler of \<^verbatim>\<open>api/order-status.js\<close> the same holds when the status
  is exactly \<open>FULFILLED\<close> or some tracking entry has a non-empty tracking number: that
  handler neither folds the case of the status nor reads a tracking URL.
\<close>

theorem override_rule:
  "(fulfilled_status node \<or> tracking_evidence node \<longrightarrow>
      stageObj_p0 node days = \<lparr>stage = ''shipped'', stage_message = ''Bestellung versendet.''\<rparr>
      \<and> pl_stage (payload_p0 rt node) = ''shipped''
      \<and> pl_message (payload_p0 rt node) = ''Bestellung versendet.'')
   \<and> (displayFulfillmentStatus node = Some ''FULFILLED'' \<or> number_evidence node \<longrightarrow>
      stage_api node days = ''shipped''
      \<and> ha_stage (html_args_api rt node) = ''shipped''
      \<and> ha_message (html_args_api rt node) = ''Bestellung versendet.'')"
  by (simp add: stageObj_p0_def stage_api_def payload_p0_def html_args_api_def Let_def
      hasTracking_p0_iff hasTracking_api_iff fulfilled_p0_iff getMessage_def)

text \<open>
  An instance: an order that is one day old, with one fulfillment that carries the tracking
  number \<open>1Z999\<close>.
\<close>

theorem override_rule_witness:
  "tracking_evidence
     (example_node\<lparr>fulfillments :=
        Some [\<lparr>trackingInfo = Some [Some \<lparr>number = Some ''1Z999'', url = None\<rparr>]\<rparr>]\<rparr>)
   \<and> stage (stageObj_p0
       (example_node\<lparr>fulfillments :=
          Some [\<lparr>trackingInfo = Some [Some \<lparr>number = Some ''1Z999'', url = None\<rparr>]\<rparr>]\<rparr>)
       (Some 1)) = ''shipped''
   \<and> stage_api
       (example_node\<lparr>fulfillments :=
          Some [\<lparr>trackingInfo = Some [Some \<lparr>number = Some ''1Z999'', url = None\<rparr>]\<rparr>]\<rparr>)
       (Some 1) = ''shipped''"
proof -
  let ?n = "example_node\<lparr>fulfillments :=
     Some [\<lparr>trackingInfo = Some [Some \<lparr>number = Some ''1Z999'', url = None\<rparr>]\<rparr>]\<rparr>"
  have t: "tracking_evidence ?n"
    by (simp add: tracking_evidence_def example_node_def or_empty_simps non_empty_def)
  have n: "number_evidence ?n"
    by (simp add: number_evidence_def example_node_def or_empty_simps non_empty_def)
  from override_rule [of ?n "Some 1" "example_rt 0 ?n"] t n show ?thesis
    by simp
qed

text \<open>
  The claim as stated fails on \<^verbatim>\<open>api/order-status.js\<close>: a status \<open>fulfilled\<close> in lower
  case equals \<open>FULFILLED\<close> case-insensitively, and the stage of a fresh order stays
  \<open>processing\<close>.
\<close>

theorem override_rule_counterexample:
  "fulfilled_status
     \<lparr>name = Some ''#1043'', createdAt = ''2026-01-01T00:00:00.000Z'',
      displayFulfillmentStatus = Some ''fulfilled'', fulfillments = Some []\<rparr>
   \<and> stage_api
       \<lparr>name = Some ''#1043'', createdAt = ''2026-01-01T00:00:00.000Z'',
        displayFulfillmentStatus = Some ''fulfilled'', fulfillments = Some []\<rparr>
       (Some 0) = ''processing''"
proof
  show "fulfilled_status
     \<lparr>name = Some ''#1043'', createdAt = ''2026-01-01T00:00:00.000Z'',
      displayFulfillmentStatus = Some ''fulfilled'', fulfillments = Some []\<rparr>"
    by (simp add: fulfilled_status_def equals_ignoring_case_def toLowerCase_FULFILLED
        toLowerCase_toUpperCase [of "''fulfilled''", symmetric] toUpperCase_FULFILLED)
  show "stage_api
       \<lparr>name = Some ''#1043'', createdAt = ''2026-01-01T00:00:00.000Z'',
        displayFulfillmentStatus = Some ''fulfilled'', fulfillments = Some []\<rparr>
       (Some 0) = ''processing''"
    by (simp add: stage_api_def hasTracking_api_def computeStage_api_def js_less_def)
qed

text \<open>
  C2 (age classification). For every integer \<open>daysSince\<close>, when the status is not
  \<open>FULFILLED\<close> (case-insensitively) and no tracking entry has a non-empty number or URL,
  the stage is \<open>processing\<close> below 2, \<open>packing\<close> from 2 and below 4, and \<open>shipped\<close> from
  4 on, in both handlers.
\<close>

theorem age_classification:
  assumes "\<not> fulfilled_status node" and "\<not> tracking_evidence node"
  shows "stage (stageObj_p0 node (Some d)) =
           (if d < 2 then ''processing'' else if d < 4 then ''packing'' else ''shipped'')
       \<and> stage_api node (Some d) =
           (if d < 2 then ''processing'' else if d < 4 then ''packing'' else ''shipped'')"
proof -
  have "\<not> number_evidence node"
    using assms(2) unfolding number_evidence_def tracking_evidence_def
    by (auto split: option.splits)
  moreover have "displayFulfillmentStatus node \<noteq> Some ''FULFILLED''"
    using assms(1) by (auto simp: fulfilled_status_def equals_ignoring_case_def)
  ultimately show ?thesis
    using assms
    by (simp add: stageObj_p0_def stage_api_def hasTracking_p0_iff hasTracking_api_iff
        fulfilled_p0_iff computeStage_p0_def computeStage_api_def js_less_def)
qed

text \<open>An instance: an unfulfilled order without fulfillments, three days old.\<close>

theorem age_classification_witness:
  "\<not> fulfilled_status example_node \<and> \<not> tracking_evidence example_node
   \<and> stage (stageObj_p0 example_node (Some 3)) = ''packing''
   \<and> stage_api example_node (Some 3) = ''packing''"
proof -
  have "toLowerCase ''UNFULFILLED'' \<noteq> toLowerCase ''FULFILLED''"
    by (simp add: toLowerCase_def)
  then have f: "\<not> fulfilled_status example_node"
    by (simp add: fulfilled_status_def example_node_def equals_ignoring_case_def)
  have t: "\<not> tracking_evidence example_node"
    by (simp add: tracking_evidence_def example_node_def or_empty_simps)
  from age_classification [OF f t, of 3] f t show ?thesis
    by simp
qed

section \<open>The request authenticator\<close>

text \<open>
  C3 (canonical message and acceptance), in the form that holds of the handlers. Each
  handler's \<open>verifyProxySignature\<close> returns \<open>ok\<close> exactly when the provided signature is
  there, is not empty and equals the hexadecimal digest of the HMAC, under the secret, of
  the message made of the \<open>key=value\<close> strings of the parameter map without \<open>signature\<close>
  and \<open>hmac\<close>, with no separator, in the key order of \<open>Array.prototype.sort\<close>: lexicographic
  by UTF-16 code unit. When no key contains a supplementary-plane character, this is the
  canonical message, with the keys in lexicographic order of their bytes and code
  points. The digest has lower-case hexadecimal digits only.
\<close>

theorem canonical_message_acceptance:
  "((\<exists>c. verifyProxySignature_p0 hmac es secret = Inr c \<and> ok c) \<longleftrightarrow>
      (\<exists>p. provided (fromEntries es) = Some p \<and> p \<noteq> []
           \<and> p = hex (hmac secret (code_unit_message es))))
   \<and> ((\<exists>c. verifyProxySignature_api hmac es secret = Inr c \<and> ok c) \<longleftrightarrow>
      (\<exists>p. provided (fromEntries es) = Some p \<and> p \<noteq> []
           \<and> p = hex (hmac secret (code_unit_message es))))
   \<and> (list_all bmp_only (map fst es) \<longrightarrow> code_unit_message es = canonical_message es)
   \<and> set (hex (hmac secret (code_unit_message es))) \<subseteq> set ''0123456789abcdef''"
proof (intro conjI)
  show "(\<exists>c. verifyProxySignature_p0 hmac es secret = Inr c \<and> ok c) \<longleftrightarrow>
      (\<exists>p. provided (fromEntries es) = Some p \<and> p \<noteq> []
           \<and> p = hex (hmac secret (code_unit_message es)))"
    unfolding verify_p0_unfold
    by (auto simp: timingSafeEqual_def split: option.splits)
  show "(\<exists>c. verifyProxySignature_api hmac es secret = Inr c \<and> ok c) \<longleftrightarrow>
      (\<exists>p. provided (fromEntries es) = Some p \<and> p \<noteq> []
           \<and> p = hex (hmac secret (code_unit_message es)))"
    unfolding verify_api_unfold
    by (auto simp: timingSafeEqual_def split: option.splits)
  show "list_all bmp_only (map fst es) \<longrightarrow> code_unit_message es = canonical_message es"
    by (simp add: code_unit_message_canonical)
  show "set (hex (hmac secret (code_unit_message es))) \<subseteq> set ''0123456789abcdef''"
    by (rule hex_lower)
qed

text \<open>
  An instance: the parameters \<open>shop\<close> and \<open>order\<close> with the digest of
  \<open>order=1043shop=deucces.myshopify.com\<close> as signature.
\<close>

theorem canonical_message_acceptance_witness:
  "list_all bmp_only (map fst
       [(''shop'', ''deucces.myshopify.com''), (''order'', ''1043''),
        (''signature'', ''7333637233746f726465723d3130343373686f703d646575636365732e6d7973'')])
   \<and> canonical_message
       [(''shop'', ''deucces.myshopify.com''), (''order'', ''1043''),
        (''signature'', ''7333637233746f726465723d3130343373686f703d646575636365732e6d7973'')]
     = ''order=1043shop=deucces.myshopify.com''
   \<and> (\<exists>c. verifyProxySignature_p0 example_hmac
         [(''shop'', ''deucces.myshopify.com''), (''order'', ''1043''),
          (''signature'', ''7333637233746f726465723d3130343373686f703d646575636365732e6d7973'')]
         ''s3cr3t'' = Inr c \<and> ok c)"
proof -
  let ?es = "[(''shop'', ''deucces.myshopify.com''), (''order'', ''1043''),
      (''signature'', ''7333637233746f726465723d3130343373686f703d646575636365732e6d7973'')]"
  have b: "list_all bmp_only (map fst ?es)"
    by (simp add: bmp_only_def)
  have m: "canonical_message ?es = ''order=1043shop=deucces.myshopify.com''"
    by code_simp
  have p: "provided (fromEntries ?es)
      = Some ''7333637233746f726465723d3130343373686f703d646575636365732e6d7973''"
    by code_simp
  have d: "hex (example_hmac ''s3cr3t'' ''order=1043shop=deucces.myshopify.com'')
      = ''7333637233746f726465723d3130343373686f703d646575636365732e6d7973''"
    by code_simp
  from canonical_message_acceptance [of example_hmac ?es "''s3cr3t''"] b
  have c: "code_unit_message ?es = canonical_message ?es"
    by blast
  have "\<exists>p. provided (fromEntries ?es) = Some p \<and> p \<noteq> []
      \<and> p = hex (example_hmac ''s3cr3t'' (code_unit_message ?es))"
    unfolding c m p d by simp
  with canonical_message_acceptance [of example_hmac ?es "''s3cr3t''"] b m show ?thesis
    by blast
qed

text \<open>
  The claim as stated, with the keys in byte or code point order, fails for keys that mix
  a supplementary-plane character with a character from U+E000 on. With the keys U+FF21
  (bytes \<open>EF BC A1\<close>) and U+1F600 (bytes \<open>F0 9F 98 80\<close>), the check accepts the digest of the
  message that starts with U+1F600, which is not the digest of the canonical message.
\<close>

theorem canonical_message_counterexample:
  "verifyProxySignature_p0 example_hmac
     [([CHR 0xEF, CHR 0xBC, CHR 0xA1], ''1''), ([CHR 0xF0, CHR 0x9F, CHR 0x98, CHR 0x80], ''2''),
      (''signature'', ''733363723374f09f98803d32efbca13d312a2a2a2a2a2a2a2a2a2a2a2a2a2a2a'')]
     ''s3cr3t'' = Inr \<lparr>ok = True, reason = None\<rparr>
   \<and> hex (example_hmac ''s3cr3t'' (canonical_message
       [([CHR 0xEF, CHR 0xBC, CHR 0xA1], ''1''), ([CHR 0xF0, CHR 0x9F, CHR 0x98, CHR 0x80], ''2''),
        (''signature'', ''733363723374f09f98803d32efbca13d312a2a2a2a2a2a2a2a2a2a2a2a2a2a2a'')]))
     = ''733363723374efbca13d31f09f98803d322a2a2a2a2a2a2a2a2a2a2a2a2a2a2a''"
proof
  show "verifyProxySignature_p0 example_hmac
     [([CHR 0xEF, CHR 0xBC, CHR 0xA1], ''1''), ([CHR 0xF0, CHR 0x9F, CHR 0x98, CHR 0x80], ''2''),
      (''signature'', ''733363723374f09f98803d32efbca13d312a2a2a2a2a2a2a2a2a2a2a2a2a2a2a'')]
     ''s3cr3t'' = Inr \<lparr>ok = True, reason = None\<rparr>"
    by code_simp
  show "hex (example_hmac ''s3cr3t'' (canonical_message
       [([CHR 0xEF, CHR 0xBC, CHR 0xA1], ''1''), ([CHR 0xF0, CHR 0x9F, CHR 0x98, CHR 0x80], ''2''),
        (''signature'', ''733363723374f09f98803d32efbca13d312a2a2a2a2a2a2a2a2a2a2a2a2a2a2a'')]))
     = ''733363723374efbca13d31f09f98803d322a2a2a2a2a2a2a2a2a2a2a2a2a2a2a''"
    by code_simp
qed

section \<open>The query handler\<close>

subsection \<open>The signature gate and the lookup\<close>


lemma handler_p0_authorized:
  "configured env \<Longrightarrow> authorized_p0 rt env req \<Longrightarrow> handler_p0 rt env req = lookup_p0 rt env req"
  by (auto simp: handler_p0_def configured_def authorized_p0_def split: sum.splits)

lemma handler_api_authorized:
  "configured env \<Longrightarrow> authorized_api rt env req \<Longrightarrow> handler_api rt env req = lookup_api rt env req"
  by (auto simp: handler_api_def configured_def authorized_api_def split: sum.splits)



lemma handler_p0_found:
  assumes "configured env" and "authorized_p0 rt env req" and "orderParam req \<noteq> []"
    and "shopifyGraphQL rt (call_p0 rt env req) = Inr (Some node)"
  shows "handler_p0 rt env req =
           ([call_p0 rt env req],
            \<lparr>status = 200,
             body = (if wantsHtml req then Html (payload_p0 rt node)
                     else Json_payload (payload_p0 rt node))\<rparr>)"
  using assms by (simp add: handler_p0_authorized lookup_p0_def)

lemma handler_api_found:
  assumes "configured env" and "authorized_api rt env req" and "orderParam req \<noteq> []"
    and "shopifyGraphQL rt (call_api env req) = Inr (Some node)"
  shows "handler_api rt env req =
           ([call_api env req], \<lparr>status = 200, body = Html_api (html_args_api rt node)\<rparr>)"
  using assms by (simp add: handler_api_authorized lookup_api_def)







subsection \<open>Signatures that differ from the digest\<close>

text \<open>
  A provided signature of another byte length than the digest makes \<open>timingSafeEqual\<close>
  throw, and the handlers answer from their \<open>catch\<close> block; one of the same length that
  differs from the digest is answered with status 401.
\<close>

lemma catch_wrong_length:
  assumes "configured env" and "truthy (SHOPIFY_API_SECRET env)"
    and "provided (fromEntries (searchParams req)) = Some p" and "p \<noteq> []"
    and "length p \<noteq> length (hex (hmac_sha256 rt (String_of (SHOPIFY_API_SECRET env))
           (code_unit_message (searchParams req))))"
  shows "handler_p0 rt env req =
           ([], catch_p0 (JsError ''RangeError'' ''Input buffers must have the same byte length''))"
    and "handler_api rt env req =
           ([], catch_api (JsError ''RangeError'' ''Input buffers must have the same byte length''))"
  using assms
  by (simp_all add: handler_p0_def handler_api_def configured_def verify_p0_unfold verify_api_unfold
      timingSafeEqual_def)

lemma unauthorized_same_length:
  assumes "configured env" and "truthy (SHOPIFY_API_SECRET env)"
    and "provided (fromEntries (searchParams req)) = Some p" and "p \<noteq> []"
    and "length p = length (hex (hmac_sha256 rt (String_of (SHOPIFY_API_SECRET env))
           (code_unit_message (searchParams req))))"
    and "p \<noteq> hex (hmac_sha256 rt (String_of (SHOPIFY_API_SECRET env))
           (code_unit_message (searchParams req)))"
  shows "handler_p0 rt env req =
           ([], \<lparr>status = 401,
                 body = Json [(''error'', ''Unauthorized proxy request''),
                              (''reason'', ''Invalid signature/hmac'')]\<rparr>)"
    and "handler_api rt env req =
           ([], \<lparr>status = 401, body = Json [(''error'', ''Invalid proxy signature'')]\<rparr>)"
  using assms
  by (auto simp: handler_p0_def handler_api_def configured_def verify_p0_unfold verify_api_unfold
      timingSafeEqual_def unauthorized_p0_def)

text \<open>
  C4 (a signature that differs from the digest is answered with 401) at the request
  \<open>?order=1043&signature=abc\<close> with the secret \<open>s3cr3t\<close> configured: whatever the HMAC
  primitive, the digest has an even number of digits, \<open>timingSafeEqual\<close> throws, and
  the handler of \<^verbatim>\<open>part_000\<close> answers 500 instead of 401.
\<close>

theorem short_signature_server_error:
  "handler_p0 rt (example_env (Some ''s3cr3t''))
     \<lparr>searchParams = [(''order'', ''1043''), (''signature'', ''abc'')], accept = None\<rparr>
   = ([], \<lparr>status = 500,
           body = Json [(''error'', ''Server error''),
                        (''message'', ''Input buffers must have the same byte length'')]\<rparr>)"
proof -
  let ?env = "example_env (Some ''s3cr3t'')"
  let ?req = "\<lparr>searchParams = [(''order'', ''1043''), (''signature'', ''abc'')], accept = None\<rparr>"
  have c: "configured ?env" and s: "truthy (SHOPIFY_API_SECRET ?env)"
    by (simp_all add: configured_def example_env_def)
  have "provided (fromEntries [(''order'', ''1043''), (''signature'', ''abc'')]) = Some ''abc''"
    by code_simp
  then have p: "provided (fromEntries (searchParams ?req)) = Some ''abc''"
    by simp
  have l: "length ''abc'' \<noteq> length (hex (hmac_sha256 rt (String_of (SHOPIFY_API_SECRET ?env))
           (code_unit_message (searchParams ?req))))"
    unfolding length_hex by simp presburger
  show ?thesis
    using catch_wrong_length(1) [OF c s p _ l] by (simp add: catch_p0_def)
qed

text \<open>The same request with the example runtime: status 500, and no call upstream.\<close>

theorem short_signature_server_error_witness:
  "status (snd (handler_p0 (example_rt 1767528000000 example_node) (example_env (Some ''s3cr3t''))
       \<lparr>searchParams = [(''order'', ''1043''), (''signature'', ''abc'')], accept = None\<rparr>)) = 500
   \<and> fst (handler_p0 (example_rt 1767528000000 example_node) (example_env (Some ''s3cr3t''))
       \<lparr>searchParams = [(''order'', ''1043''), (''signature'', ''abc'')], accept = None\<rparr>) = []"
  using short_signature_server_error [of "example_rt 1767528000000 example_node"]
  by simp

subsection \<open>Requests without a signature\<close>





section \<open>The age of an order\<close>

lemma daysSince_node_update:
  "daysSince rt (node\<lparr>displayFulfillmentStatus := s, fulfillments := fs\<rparr>) = daysSince rt node"
  by (simp add: daysSince_def)

text \<open>
  C7 (reported \<open>daysSince\<close>), in the form that holds of the handlers. For an order with a valid creation timestamp,
  both handlers report the integer \<open>d\<close> with \<open>d\<close> days \<open>\<le>\<close> elapsed time \<open><\<close> \<open>d + 1\<close> days:
  the elapsed time in days rounded down. When the creation timestamp is not later than
  the current time, \<open>d\<close> is non-negative and is the truncated number of whole days; when
  it is later, \<open>d\<close> is negative.
\<close>

theorem days_since_floor:
  assumes "Date_parse rt (createdAt node) = Some created"
  shows "\<exists>d. pl_daysSince (payload_p0 rt node) = Some d
           \<and> ha_daysSince (html_args_api rt node) = Some d
           \<and> d * 86400000 \<le> Date_now rt - created
           \<and> Date_now rt - created < (d + 1) * 86400000
           \<and> (created \<le> Date_now rt \<longrightarrow>
                 0 \<le> d \<and> d = int (nat (Date_now rt - created) div 86400000))
           \<and> (Date_now rt < created \<longrightarrow> d < 0)"
proof -
  define x where "x = Date_now rt - created"
  define d where "d = x div 86400000"
  have days: "daysSince rt node = Some d"
    using assms by (simp add: daysSince_def d_def x_def)
  have dm: "x = d * 86400000 + x mod 86400000"
    unfolding d_def by (rule div_mult_mod_eq [symmetric])
  have m: "0 \<le> x mod 86400000" "x mod 86400000 < 86400000"
    by simp_all
  have "d * 86400000 \<le> x" "x < (d + 1) * 86400000"
    using dm m by (simp_all add: algebra_simps)
  moreover have "0 \<le> d \<and> d = int (nat x div 86400000)" if "0 \<le> x"
  proof
    show "0 \<le> d"
      using that unfolding d_def by (simp add: pos_imp_zdiv_nonneg_iff)
    have "int (nat x div 86400000) = int (nat x) div 86400000"
      by (simp add: zdiv_int)
    then show "d = int (nat x div 86400000)"
      using that unfolding d_def by simp
  qed
  moreover have "d < 0" if "x < 0"
    using that dm m by linarith
  ultimately show ?thesis
    using days by (auto simp: payload_p0_def html_args_api_def Let_def x_def)
qed

text \<open>An instance: an order created on 2026-01-01 at 00:00 UTC, read three and a half days later.\<close>

theorem days_since_floor_witness:
  "Date_parse (example_rt 1767528000000 example_node) (createdAt example_node) = Some 1767225600000
   \<and> pl_daysSince (payload_p0 (example_rt 1767528000000 example_node) example_node) = Some 3
   \<and> ha_daysSince (html_args_api (example_rt 1767528000000 example_node) example_node) = Some 3"
proof -
  let ?rt = "example_rt 1767528000000 example_node"
  have p: "Date_parse ?rt (createdAt example_node) = Some 1767225600000"
    by (simp add: example_rt_def example_node_def)
  have e: "pl_daysSince (payload_p0 ?rt example_node) = Some 3"
    by (simp add: payload_p0_def daysSince_def example_rt_def example_node_def Let_def)
  from days_since_floor [OF p] e p show ?thesis
    by auto
qed

text \<open>
  The claim as stated fails when the creation timestamp lies after the clock of the
  handler: for an order created one second after the current time, the reported
  \<open>daysSince\<close> is \<open>-1\<close>, which is negative and is not the truncation (0) of the elapsed
  time.
\<close>

theorem days_since_counterexample:
  "Date_parse (example_rt 1767225599000 example_node) (createdAt example_node) = Some 1767225600000
   \<and> Date_now (example_rt 1767225599000 example_node) = 1767225599000
   \<and> pl_daysSince (payload_p0 (example_rt 1767225599000 example_node) example_node) = Some (- 1)
   \<and> ha_daysSince (html_args_api (example_rt 1767225599000 example_node) example_node) = Some (- 1)"
  by (simp add: payload_p0_def html_args_api_def daysSince_def example_rt_def example_node_def Let_def)

text \<open>
  C8 (frame property of the override). The reported \<open>daysSince\<close> is the value computed
  from the creation timestamp and the clock. Replacing the fulfillment status and the
  fulfillments of an order, which is all the override reads, changes the stage and the
  message of the output and nothing else.
\<close>

theorem days_since_frame:
  "pl_daysSince (payload_p0 rt node) = daysSince rt node
   \<and> ha_daysSince (html_args_api rt node) = daysSince rt node
   \<and> payload_p0 rt (node\<lparr>displayFulfillmentStatus := s, fulfillments := fs\<rparr>) =
       (payload_p0 rt node)
         \<lparr>pl_stage := stage (stageObj_p0 (node\<lparr>displayFulfillmentStatus := s, fulfillments := fs\<rparr>)
              (daysSince rt node)),
          pl_message := stage_message
              (stageObj_p0 (node\<lparr>displayFulfillmentStatus := s, fulfillments := fs\<rparr>)
              (daysSince rt node))\<rparr>
   \<and> html_args_api rt (node\<lparr>displayFulfillmentStatus := s, fulfillments := fs\<rparr>) =
       (html_args_api rt node)
         \<lparr>ha_stage := stage_api (node\<lparr>displayFulfillmentStatus := s, fulfillments := fs\<rparr>)
              (daysSince rt node),
          ha_message := getMessage
              (stage_api (node\<lparr>displayFulfillmentStatus := s, fulfillments := fs\<rparr>)
              (daysSince rt node))\<rparr>"
  by (simp add: payload_p0_def html_args_api_def Let_def daysSince_node_update)

text \<open>An instance: an order that is one day old, unfulfilled and then fulfilled.\<close>

theorem days_since_frame_witness:
  "pl_daysSince (payload_p0 (example_rt 1767312000000 example_node) example_node) = Some 1
   \<and> payload_p0 (example_rt 1767312000000 example_node)
       (example_node\<lparr>displayFulfillmentStatus := Some ''FULFILLED'', fulfillments := Some []\<rparr>)
     = (payload_p0 (example_rt 1767312000000 example_node) example_node)
         \<lparr>pl_stage := ''shipped'', pl_message := ''Bestellung versendet.''\<rparr>"
proof -
  let ?rt = "example_rt 1767312000000 example_node"
  let ?n = "example_node\<lparr>displayFulfillmentStatus := Some ''FULFILLED'', fulfillments := Some []\<rparr>"
  have d: "daysSince ?rt example_node = Some 1"
    by (simp add: daysSince_def example_rt_def example_node_def)
  have "toUpperCase ''FULFILLED'' = ''FULFILLED''"
    by (simp only: toUpperCase_toLowerCase [of "''FULFILLED''", symmetric] toLowerCase_FULFILLED
        toUpperCase_FULFILLED)
  then have s: "stageObj_p0 ?n (Some 1) = \<lparr>stage = ''shipped'', stage_message = ''Bestellung versendet.''\<rparr>"
    by (simp add: stageObj_p0_def String_of_def)
  from days_since_frame [where rt = ?rt and node = example_node
      and s = "Some ''FULFILLED''" and fs = "Some []"] show ?thesis
    unfolding d s by simp
qed

section \<open>Determinism of the composition\<close>

lemma daysSince_cong:
  assumes "Date_parse rt1 = Date_parse rt2" and "Date_now rt1 = Date_now rt2"
  shows "daysSince rt1 node = daysSince rt2 node"
  unfolding daysSince_def assms ..

lemma stage_result_p0:
  assumes "configured env" and "authorized_p0 rt env req" and "orderParam req \<noteq> []"
    and "shopifyGraphQL rt (call_p0 rt env req) = Inr (Some node)"
  shows "stage_result (snd (handler_p0 rt env req)) =
           Some (stage (stageObj_p0 node (daysSince rt node)),
                 stage_message (stageObj_p0 node (daysSince rt node)),
                 daysSince rt node)"
  unfolding handler_p0_found [OF assms]
  by (simp add: stage_result_def payload_p0_def Let_def)

lemma stage_result_api:
  assumes "configured env" and "authorized_api rt env req" and "orderParam req \<noteq> []"
    and "shopifyGraphQL rt (call_api env req) = Inr (Some node)"
  shows "stage_result (snd (handler_api rt env req)) =
           Some (stage_api node (daysSince rt node),
                 getMessage (stage_api node (daysSince rt node)),
                 daysSince rt node)"
  unfolding handler_api_found [OF assms]
  by (simp add: stage_result_def html_args_api_def Let_def)

text \<open>
  C9 (determinism). Take two invocations of a handler with the same query parameters and
  the same configuration (shop and token configured, an order identifier given), with
  runtimes that agree on the HMAC primitive, the date parser and the current time, where
  the first passes the signature gate and the upstream returns the same order record to
  both. Then both answer with a StageResult, and with the same one: stage, message and
  \<open>daysSince\<close> are those computed from the record and the clock. The requests may differ
  in their \<open>accept\<close> header, the runtimes in everything else.
\<close>

theorem handler_deterministic:
  assumes "searchParams req1 = searchParams req2"
    and "hmac_sha256 rt1 = hmac_sha256 rt2"
    and "Date_parse rt1 = Date_parse rt2" and "Date_now rt1 = Date_now rt2"
    and "configured env" and "orderParam req1 \<noteq> []"
  shows "(authorized_p0 rt1 env req1
          \<and> shopifyGraphQL rt1 (call_p0 rt1 env req1) = Inr (Some node)
          \<and> shopifyGraphQL rt2 (call_p0 rt2 env req2) = Inr (Some node) \<longrightarrow>
            stage_result (snd (handler_p0 rt1 env req1)) =
              Some (stage (stageObj_p0 node (daysSince rt1 node)),
                    stage_message (stageObj_p0 node (daysSince rt1 node)),
                    daysSince rt1 node)
            \<and> stage_result (snd (handler_p0 rt2 env req2)) =
                stage_result (snd (handler_p0 rt1 env req1)))
       \<and> (authorized_api rt1 env req1
          \<and> shopifyGraphQL rt1 (call_api env req1) = Inr (Some node)
          \<and> shopifyGraphQL rt2 (call_api env req2) = Inr (Some node) \<longrightarrow>
            stage_result (snd (handler_api rt1 env req1)) =
              Some (stage_api node (daysSince rt1 node),
                    getMessage (stage_api node (daysSince rt1 node)),
                    daysSince rt1 node)
            \<and> stage_result (snd (handler_api rt2 env req2)) =
                stage_result (snd (handler_api rt1 env req1)))"
proof (intro conjI impI)
  have o2: "orderParam req2 \<noteq> []"
    using assms(6) by (simp add: orderParam_def assms(1))
  have d: "daysSince rt2 node = daysSince rt1 node"
    by (rule daysSince_cong [OF assms(3,4), symmetric])
  {
    assume h: "authorized_p0 rt1 env req1
          \<and> shopifyGraphQL rt1 (call_p0 rt1 env req1) = Inr (Some node)
          \<and> shopifyGraphQL rt2 (call_p0 rt2 env req2) = Inr (Some node)"
    have "authorized_p0 rt2 env req2 = authorized_p0 rt1 env req1"
      unfolding authorized_p0_def assms(1,2) ..
    with h have a2: "authorized_p0 rt2 env req2"
      by simp
    from h show r1: "stage_result (snd (handler_p0 rt1 env req1)) =
              Some (stage (stageObj_p0 node (daysSince rt1 node)),
                    stage_message (stageObj_p0 node (daysSince rt1 node)),
                    daysSince rt1 node)"
      using assms(5,6) by (simp add: stage_result_p0)
    from h a2 o2 have "stage_result (snd (handler_p0 rt2 env req2)) =
              Some (stage (stageObj_p0 node (daysSince rt2 node)),
                    stage_message (stageObj_p0 node (daysSince rt2 node)),
                    daysSince rt2 node)"
      using assms(5) by (simp add: stage_result_p0)
    then show "stage_result (snd (handler_p0 rt2 env req2)) =
                stage_result (snd (handler_p0 rt1 env req1))"
      by (simp only: r1 d)
  }
  {
    assume h: "authorized_api rt1 env req1
          \<and> shopifyGraphQL rt1 (call_api env req1) = Inr (Some node)
          \<and> shopifyGraphQL rt2 (call_api env req2) = Inr (Some node)"
    have "authorized_api rt2 env req2 = authorized_api rt1 env req1"
      unfolding authorized_api_def assms(1,2) ..
    with h have a2: "authorized_api rt2 env req2"
      by simp
    from h show r1: "stage_result (snd (handler_api rt1 env req1)) =
              Some (stage_api node (daysSince rt1 node),
                    getMessage (stage_api node (daysSince rt1 node)),
                    daysSince rt1 node)"
      using assms(5,6) by (simp add: stage_result_api)
    from h a2 o2 have "stage_result (snd (handler_api rt2 env req2)) =
              Some (stage_api node (daysSince rt2 node),
                    getMessage (stage_api node (daysSince rt2 node)),
                    daysSince rt2 node)"
      using assms(5) by (simp add: stage_result_api)
    then show "stage_result (snd (handler_api rt2 env req2)) =
                stage_result (snd (handler_api rt1 env req1))"
      by (simp only: r1 d)
  }
qed

text \<open>
  An instance: the same query \<open>?order=1043\<close>, once asking for JSON and once for HTML, with
  two runtimes that differ in their lower-casing; the order is three and a half days old.
\<close>

theorem handler_deterministic_witness:
  "stage_result (snd (handler_p0 (example_rt 1767528000000 example_node) (example_env None)
       \<lparr>searchParams = [(''order'', ''1043'')], accept = None\<rparr>))
     = Some (''packing'', packing_message, Some 3)
   \<and> stage_result (snd (handler_p0
         ((example_rt 1767528000000 example_node)\<lparr>String_toLowerCase := (\<lambda>s. s)\<rparr>)
         (example_env None)
         \<lparr>searchParams = [(''order'', ''1043'')], accept = Some ''text/html''\<rparr>))
     = Some (''packing'', packing_message, Some 3)"
proof -
  let ?rt1 = "example_rt 1767528000000 example_node"
  let ?rt2 = "?rt1\<lparr>String_toLowerCase := (\<lambda>s. s)\<rparr>"
  let ?env = "example_env None"
  let ?r1 = "\<lparr>searchParams = [(''order'', ''1043'')], accept = None\<rparr>"
  let ?r2 = "\<lparr>searchParams = [(''order'', ''1043'')], accept = Some ''text/html''\<rparr>"
  have s: "searchParams ?r1 = searchParams ?r2"
    and r: "hmac_sha256 ?rt1 = hmac_sha256 ?rt2" "Date_parse ?rt1 = Date_parse ?rt2"
      "Date_now ?rt1 = Date_now ?rt2"
    by simp_all
  have c: "configured ?env"
    by (simp add: configured_def example_env_def)
  have "orderParam ?r1 = ''1043''"
    by code_simp
  then have o: "orderParam ?r1 \<noteq> []"
    by simp
  have a: "authorized_p0 ?rt1 ?env ?r1"
    by (simp add: authorized_p0_def example_env_def)
  have g: "shopifyGraphQL ?rt1 (call_p0 ?rt1 ?env ?r1) = Inr (Some example_node)"
    "shopifyGraphQL ?rt2 (call_p0 ?rt2 ?env ?r2) = Inr (Some example_node)"
    by (simp_all add: shopifyGraphQL_def example_rt_def)
  have e: "(stage (stageObj_p0 example_node (daysSince ?rt1 example_node)),
      stage_message (stageObj_p0 example_node (daysSince ?rt1 example_node)),
      daysSince ?rt1 example_node) = (''packing'', packing_message, Some 3)"
    by code_simp
  from handler_deterministic [OF s r c o, of example_node] a g show ?thesis
    unfolding e by simp
qed

end
